theory Spec2Isabelle
  imports Complex_Main
begin

section \<open>JavaScript numbers and strings\<close>

text \<open>
  The backend computes with JavaScript numbers. Counters and clock readings hold integers
  and are modelled as \<open>int\<close>; quotients are modelled as exact reals. A division whose
  divisor is zero does not raise in JavaScript: it yields \<open>Infinity\<close>, \<open>-Infinity\<close> or
  \<open>NaN\<close>, and these outcomes are kept as values of the model. The rounding error of
  IEEE doubles is not part of the model.
\<close>

datatype 'a jsnum = Num 'a | PosInfinity | NegInfinity | NaN

definition js_div :: "real \<Rightarrow> real \<Rightarrow> real jsnum" where
  "js_div a b =
     (if b \<noteq> 0 then Num (a / b)
      else if a > 0 then PosInfinity
      else if a < 0 then NegInfinity
      else NaN)"

text \<open>\<open>Math.round\<close> rounds to the nearest integer, halves towards plus infinity.\<close>

definition round_half_up :: "real \<Rightarrow> int" where
  "round_half_up x = \<lfloor>x + 1 / 2\<rfloor>"

fun Math_round :: "real jsnum \<Rightarrow> int jsnum" where
  "Math_round (Num x) = Num (round_half_up x)"
| "Math_round PosInfinity = PosInfinity"
| "Math_round NegInfinity = NegInfinity"
| "Math_round NaN = NaN"

text \<open>The remainder operator \<open>%\<close> truncates: the result has the sign of the dividend.\<close>

definition js_rem :: "int \<Rightarrow> int \<Rightarrow> int" where
  "js_rem a b = (if a \<ge> 0 then a mod \<bar>b\<bar> else - ((- a) mod \<bar>b\<bar>))"

definition digit_char :: "nat \<Rightarrow> char" where
  "digit_char d = ''0123456789'' ! d"

fun show_nat :: "nat \<Rightarrow> string" where
  "show_nat n = (if n < 10 then [digit_char n] else show_nat (n div 10) @ [digit_char (n mod 10)])"

declare show_nat.simps [simp del]

text \<open>
  The text a template literal substitutes for an integer-valued number (plain decimal
  digits; the exponent notation JavaScript switches to from \<open>1e21\<close> on is out of the
  reach of clock differences).
\<close>

definition show_int :: "int \<Rightarrow> string" where
  "show_int i = (if i < 0 then CHR ''-'' # show_nat (nat (- i)) else show_nat (nat i))"

fun show_jsnum :: "int jsnum \<Rightarrow> string" where
  "show_jsnum (Num i) = show_int i"
| "show_jsnum PosInfinity = ''Infinity''"
| "show_jsnum NegInfinity = ''-Infinity''"
| "show_jsnum NaN = ''NaN''"

section \<open>The process-wide metrics and the request tracking middleware\<close>

record serverMetrics =
  startTime :: int
  requestCount :: int
  totalResponseTime :: int
  responseTimeCount :: int

text \<open>The object literal of the declaration; \<open>t0\<close> is the reading of \<open>Date.now()\<close> at start.\<close>

definition initialMetrics :: "int \<Rightarrow> serverMetrics" where
  "initialMetrics t0 =
     \<lparr>startTime = t0, requestCount = 0, totalResponseTime = 0, responseTimeCount = 0\<rparr>"

text \<open>
  The body of the middleware, run when a request arrives: it reads the clock into
  \<open>start\<close>, increments \<open>requestCount\<close> and registers the listener, which keeps \<open>start\<close>.
  The result is the captured \<open>start\<close> and the updated metrics.
\<close>

definition track_request :: "int \<Rightarrow> serverMetrics \<Rightarrow> int \<times> serverMetrics" where
  "track_request now m = (now, m\<lparr>requestCount := requestCount m + 1\<rparr>)"

text \<open>The listener of the response's \<open>finish\<close> event.\<close>

definition on_finish :: "int \<Rightarrow> int \<Rightarrow> serverMetrics \<Rightarrow> serverMetrics" where
  "on_finish start now m =
     (let responseTime = now - start
      in m\<lparr>totalResponseTime := totalResponseTime m + responseTime,
           responseTimeCount := responseTimeCount m + 1\<rparr>)"

text \<open>
  Two middlewares are registered before the tracker and can keep a request from it.
  \<open>cors()\<close> answers every request of method \<open>OPTIONS\<close> itself, with 204, and does not
  pass it on; \<open>express.json()\<close> hands a request whose body it cannot read (malformed
  JSON, a body over the size limit, an unsupported encoding) to the error handling, which
  skips every ordinary middleware. Such a request never runs the tracker.
\<close>

datatype bypass = EndedByCors | RejectedByBodyParser

text \<open>
  The running server: the metrics and, for every tracked response that has not finished
  yet, the \<open>start\<close> its listener captured. An event is one of: a request that reaches the
  tracker, with the value \<open>Date.now()\<close> returns to it; a request that does not reach it;
  the \<open>finish\<close> event of an open response (by its position among the listeners), with
  the value \<open>Date.now()\<close> returns to the listener; the loss of an open response that
  never emits \<open>finish\<close>, whose listener is dropped without running. The readings of the
  clock are arbitrary integers: \<open>Date.now()\<close> is the wall clock, and nothing in the code
  keeps a later reading from being below an earlier one.
\<close>

record server =
  metrics :: serverMetrics
  listeners :: "int list"

datatype event =
    Request int
  | Bypassed bypass
  | Finish int nat
  | Abort nat

definition boot :: "int \<Rightarrow> server" where
  "boot t0 = \<lparr>metrics = initialMetrics t0, listeners = []\<rparr>"

definition remove_nth :: "nat \<Rightarrow> 'a list \<Rightarrow> 'a list" where
  "remove_nth i xs = take i xs @ drop (Suc i) xs"

fun step :: "event \<Rightarrow> server \<Rightarrow> server option" where
  "step (Request now) s =
     (let (start, m) = track_request now (metrics s)
      in Some \<lparr>metrics = m, listeners = listeners s @ [start]\<rparr>)"
| "step (Bypassed b) s = Some s"
| "step (Finish now i) s =
     (if i < length (listeners s)
      then Some \<lparr>metrics = on_finish (listeners s ! i) now (metrics s),
                 listeners = remove_nth i (listeners s)\<rparr>
      else None)"
| "step (Abort i) s =
     (if i < length (listeners s)
      then Some \<lparr>metrics = metrics s, listeners = remove_nth i (listeners s)\<rparr>
      else None)"

fun run :: "event list \<Rightarrow> server \<Rightarrow> server option" where
  "run [] s = Some s"
| "run (e # es) s = (case step e s of None \<Rightarrow> None | Some s' \<Rightarrow> run es s')"

text \<open>The readings of the clock an event makes, and those of a sequence of events.\<close>

fun reading :: "event \<Rightarrow> int list" where
  "reading (Request now) = [now]"
| "reading (Bypassed b) = []"
| "reading (Finish now i) = [now]"
| "reading (Abort i) = []"

definition readings :: "event list \<Rightarrow> int list" where
  "readings es = concat (map reading es)"

text \<open>
  Whether a step measures a response time that is not negative: the reading at the
  \<open>finish\<close> event is not below the \<open>start\<close> of the response that finishes.
\<close>

fun elapsed_nonneg :: "event \<Rightarrow> server \<Rightarrow> bool" where
  "elapsed_nonneg (Finish now i) s = (listeners s ! i \<le> now)"
| "elapsed_nonneg _ s = True"

section \<open>Uptime and rate helpers\<close>

definition uptime_hours :: "int \<Rightarrow> int" where
  "uptime_hours uptime = \<lfloor>real_of_int uptime / (1000 * 60 * 60)\<rfloor>"

definition uptime_minutes :: "int \<Rightarrow> int" where
  "uptime_minutes uptime = \<lfloor>real_of_int (js_rem uptime (1000 * 60 * 60)) / (1000 * 60)\<rfloor>"

definition getUptime :: "int \<Rightarrow> serverMetrics \<Rightarrow> string" where
  "getUptime now m =
     (let uptime = now - startTime m;
          hours = uptime_hours uptime;
          minutes = uptime_minutes uptime
      in if hours > 0 then show_int hours @ ''h '' @ show_int minutes @ ''m''
         else show_int minutes @ ''m'')"

definition getAverageResponseTime :: "serverMetrics \<Rightarrow> int jsnum" where
  "getAverageResponseTime m =
     (if responseTimeCount m > 0
      then Math_round (js_div (real_of_int (totalResponseTime m))
                              (real_of_int (responseTimeCount m)))
      else Num 0)"

text \<open>The two places that compute a requests-per-hour figure.\<close>

definition status_requestsPerHour :: "int \<Rightarrow> serverMetrics \<Rightarrow> int jsnum" where
  "status_requestsPerHour now m =
     (let hoursRunning = real_of_int (now - startTime m) / (1000 * 60 * 60)
      in if hoursRunning > 0
         then Math_round (js_div (real_of_int (requestCount m)) hoursRunning)
         else Num 0)"

definition metrics_requestsPerHour :: "int \<Rightarrow> serverMetrics \<Rightarrow> int jsnum" where
  "metrics_requestsPerHour now m =
     (let uptimeMs = now - startTime m;
          hoursRunning = real_of_int uptimeMs / (1000 * 60 * 60)
      in Math_round (js_div (real_of_int (requestCount m)) (max hoursRunning 0.1)))"

section \<open>Container status query\<close>

text \<open>
  The container runtime is an external program. The awaited call either rejects with an
  error (runtime absent, permission denied, a killed or timed out child) or resolves
  with the text the runtime printed.
\<close>

datatype exec_error = ExecError string

type_synonym exec_result = "exec_error + string"

record container =
  name :: "string option"
  status :: "string option"

record dockerStatus =
  running :: bool
  containerCount :: nat
  containers :: "container list"

text \<open>\<open>s.split(c)\<close> for a one-character separator: always at least one piece.\<close>

fun split_on :: "char \<Rightarrow> string \<Rightarrow> string list" where
  "split_on c [] = [] # []"
| "split_on c (x # xs) =
     (if x = c then [] # split_on c xs
      else (case split_on c xs of [] \<Rightarrow> [x] # [] | p # ps \<Rightarrow> (x # p) # ps))"

text \<open>
  Text is held as its UTF-8 bytes. \<open>trim\<close> removes the white space and line terminators
  of the language from both ends: the six ASCII characters (tab, line feed, vertical tab,
  form feed, carriage return, space), U+00A0 (two bytes), and U+1680, U+2000 to U+200A,
  U+2028, U+2029, U+202F, U+205F, U+3000 and U+FEFF (three bytes each).
\<close>

definition is_space :: "char \<Rightarrow> bool" where
  "is_space c \<longleftrightarrow> c \<in> {CHR '' '', CHR 0x09, CHR 0x0A, CHR 0x0B, CHR 0x0C, CHR 0x0D}"

definition is_space2 :: "char \<Rightarrow> char \<Rightarrow> bool" where
  "is_space2 a b \<longleftrightarrow> a = CHR 0xC2 \<and> b = CHR 0xA0"

definition is_space3 :: "char \<Rightarrow> char \<Rightarrow> char \<Rightarrow> bool" where
  "is_space3 a b c \<longleftrightarrow>
     (a = CHR 0xE1 \<and> b = CHR 0x9A \<and> c = CHR 0x80)
     \<or> (a = CHR 0xE2 \<and> b = CHR 0x80
         \<and> c \<in> {CHR 0x80, CHR 0x81, CHR 0x82, CHR 0x83, CHR 0x84, CHR 0x85, CHR 0x86,
                 CHR 0x87, CHR 0x88, CHR 0x89, CHR 0x8A, CHR 0xA8, CHR 0xA9, CHR 0xAF})
     \<or> (a = CHR 0xE2 \<and> b = CHR 0x81 \<and> c = CHR 0x9F)
     \<or> (a = CHR 0xE3 \<and> b = CHR 0x80 \<and> c = CHR 0x80)
     \<or> (a = CHR 0xEF \<and> b = CHR 0xBB \<and> c = CHR 0xBF)"

text \<open>
  Removing white space from the front, given the tests for the two- and three-byte
  characters; the same function serves the other end on the reversed text, with the
  tests reading their bytes in reverse.
\<close>

fun strip_space :: "(char \<Rightarrow> char \<Rightarrow> bool) \<Rightarrow> (char \<Rightarrow> char \<Rightarrow> char \<Rightarrow> bool) \<Rightarrow> string \<Rightarrow> string" where
  "strip_space p2 p3 (a # b # c # s) =
     (if is_space a then strip_space p2 p3 (b # c # s)
      else if p2 a b then strip_space p2 p3 (c # s)
      else if p3 a b c then strip_space p2 p3 s
      else a # b # c # s)"
| "strip_space p2 p3 [a, b] =
     (if is_space a then strip_space p2 p3 [b]
      else if p2 a b then []
      else [a, b])"
| "strip_space p2 p3 [a] = (if is_space a then [] else [a])"
| "strip_space p2 p3 [] = []"

definition js_trim :: "string \<Rightarrow> string" where
  "js_trim s =
     rev (strip_space (\<lambda>b a. is_space2 a b) (\<lambda>c b a. is_space3 a b c)
            (rev (strip_space is_space2 is_space3 s)))"

text \<open>The destructuring \<open>[name, status] = line.split('\t')\<close> with the optional calls of \<open>trim\<close>.\<close>

definition parse_container :: "string \<Rightarrow> container" where
  "parse_container line =
     (case split_on (CHR 0x09) line of
        [] \<Rightarrow> \<lparr>name = None, status = None\<rparr>
      | [n] \<Rightarrow> \<lparr>name = Some (js_trim n), status = None\<rparr>
      | n # st # _ \<Rightarrow> \<lparr>name = Some (js_trim n), status = Some (js_trim st)\<rparr>)"

fun checkDockerStatus :: "exec_result \<Rightarrow> dockerStatus" where
  "checkDockerStatus (Inr stdout) =
     (let lines = filter (\<lambda>line. js_trim line \<noteq> []) (drop 1 (split_on (CHR 0x0A) stdout))
      in \<lparr>running = length lines > 0,
          containerCount = length lines,
          containers = map parse_container lines\<rparr>)"
| "checkDockerStatus (Inl error) = \<lparr>running = False, containerCount = 0, containers = []\<rparr>"

section \<open>Health sampler\<close>

text \<open>
  A sample is the object the sampler returns; the fields the failure branch leaves out
  are optional. The three calls of \<open>Math.random()\<close> are inputs of the model. No call in
  the guarded block raises; the failure branch is kept as the source has it, entered by
  \<open>Thrown\<close> with the message of the error.
\<close>

record health =
  healthy :: bool
  cpu :: "int option"
  memory :: "int option"
  disk :: "int option"
  error :: "string option"
  timestamp :: string

datatype sampling = Drawn real real real | Thrown string

definition health_sample :: "int \<Rightarrow> int \<Rightarrow> int \<Rightarrow> string \<Rightarrow> health" where
  "health_sample c m d ts =
     \<lparr>healthy = (c < 80 \<and> m < 85 \<and> d < 90),
      cpu = Some c, memory = Some m, disk = Some d, error = None, timestamp = ts\<rparr>"

fun getSystemHealth :: "sampling \<Rightarrow> string \<Rightarrow> health" where
  "getSystemHealth (Drawn r1 r2 r3) ts =
     (let c = \<lfloor>r1 * 30\<rfloor> + 10;
          m = \<lfloor>r2 * 40\<rfloor> + 30;
          d = \<lfloor>r3 * 20\<rfloor> + 20
      in health_sample c m d ts)"
| "getSystemHealth (Thrown msg) ts =
     \<lparr>healthy = False, cpu = None, memory = None, disk = None,
      error = Some msg, timestamp = ts\<rparr>"

section \<open>Responses\<close>

text \<open>
  A response is the status code and the value handed to \<open>res.json\<close>. Properties whose
  value is \<open>undefined\<close> are left out of the serialised object, and a number that is not
  finite is serialised as \<open>null\<close>.
\<close>

datatype json =
    JNull
  | JBool bool
  | JNum real
  | JStr string
  | JArr "json list"
  | JObj "(string \<times> json) list"

record response =
  statusCode :: nat
  body :: json

fun jget :: "string \<Rightarrow> json \<Rightarrow> json option" where
  "jget k (JObj kvs) = map_of kvs k"
| "jget k _ = None"

fun jpath :: "string list \<Rightarrow> json \<Rightarrow> json option" where
  "jpath [] j = Some j"
| "jpath (k # ks) j = (case jget k j of None \<Rightarrow> None | Some j' \<Rightarrow> jpath ks j')"

fun jnum :: "int jsnum \<Rightarrow> json" where
  "jnum (Num i) = JNum (real_of_int i)"
| "jnum _ = JNull"

definition opt_field :: "string \<Rightarrow> ('a \<Rightarrow> json) \<Rightarrow> 'a option \<Rightarrow> (string \<times> json) list" where
  "opt_field k f v = (case v of None \<Rightarrow> [] | Some x \<Rightarrow> [(k, f x)])"

definition jint :: "int \<Rightarrow> json" where
  "jint i = JNum (real_of_int i)"

definition health_json :: "health \<Rightarrow> json" where
  "health_json h =
     JObj ([(''healthy'', JBool (healthy h))]
           @ opt_field ''cpu'' jint (cpu h)
           @ opt_field ''memory'' jint (memory h)
           @ opt_field ''disk'' jint (disk h)
           @ opt_field ''error'' JStr (error h)
           @ [(''timestamp'', JStr (timestamp h))])"

definition container_json :: "container \<Rightarrow> json" where
  "container_json c =
     JObj (opt_field ''name'' JStr (name c) @ opt_field ''status'' JStr (status c))"

text \<open>
  What a handler takes from the host besides the metrics: the formatting functions of
  the platform. Clock readings, random draws and the outcome of the runtime call are
  arguments of each handler.
\<close>

record host =
  toISOString :: "int \<Rightarrow> string"
  toLocaleString :: "int jsnum \<Rightarrow> string"

section \<open>Endpoints\<close>

text \<open>\<open>GET /health\<close>, from the sample the sampler returned.\<close>

definition health_response :: "health \<Rightarrow> response" where
  "health_response h =
     \<lparr>statusCode = (if healthy h then 200 else 503),
      body = JObj [(''status'', JStr (if healthy h then ''healthy'' else ''unhealthy'')),
                   (''timestamp'', JStr (timestamp h)),
                   (''details'', health_json h)]\<rparr>"

definition get_health :: "host \<Rightarrow> sampling \<Rightarrow> int \<Rightarrow> response" where
  "get_health H draw t = health_response (getSystemHealth draw (toISOString H t))"

text \<open>
  \<open>GET /api/status\<close>. \<open>tH\<close> is the clock reading of the sampler, \<open>t1\<close> the one of the rate,
  \<open>t2\<close> and \<open>t3\<close> those of the two calls of \<open>getUptime\<close>, \<open>t4\<close> the one of the timestamp.
\<close>

definition get_api_status ::
  "host \<Rightarrow> exec_result \<Rightarrow> sampling \<Rightarrow> int \<Rightarrow> int \<Rightarrow> int \<Rightarrow> int \<Rightarrow> int \<Rightarrow> serverMetrics \<Rightarrow> response" where
  "get_api_status H ex draw tH t1 t2 t3 t4 m =
     (let dockerStatus = checkDockerStatus ex;
          h = getSystemHealth draw (toISOString H tH);
          requestsPerHour = status_requestsPerHour t1 m
      in \<lparr>statusCode = 200,
          body = JObj
            [(''server'', JObj
                [(''status'', JStr ''online''),
                 (''version'', JStr ''1.0.0''),
                 (''uptime'', JStr (getUptime t2 m))]),
             (''services'', JObj
                [(''webServer'', JObj
                    [(''status'', JStr ''online''),
                     (''responseTime'', jnum (getAverageResponseTime m))]),
                 (''docker'', JObj
                    [(''status'', JStr (if running dockerStatus then ''online'' else ''offline'')),
                     (''containers'', JNum (real (containerCount dockerStatus)))]),
                 (''healthCheck'', JObj
                    [(''status'', JStr (if healthy h then ''online'' else ''degraded'')),
                     (''lastCheck'', JStr (timestamp h))]),
                 (''ssl'', JObj
                    [(''status'', JStr ''online''),
                     (''certificate'', JStr ''valid'')])]),
             (''metrics'', JObj
                [(''uptime'', JStr (getUptime t3 m)),
                 (''responseTime'', JStr (show_jsnum (getAverageResponseTime m) @ ''ms'')),
                 (''requestsPerHour'', JStr (toLocaleString H requestsPerHour))]),
             (''timestamp'', JStr (toISOString H t4))]\<rparr>)"

text \<open>The simulated uptime percentage of \<open>GET /api/metrics\<close>, from the random draw \<open>r\<close>.\<close>

definition uptimePercentage :: "real \<Rightarrow> real" where
  "uptimePercentage r = max 99.0 (100 - (r * 1))"

definition reported_percentage :: "real \<Rightarrow> real" where
  "reported_percentage r = real_of_int (round_half_up (uptimePercentage r * 10)) / 10"

text \<open>
  \<open>GET /api/metrics\<close>. \<open>tH\<close> is the clock reading of the sampler, \<open>t1\<close> the one of
  \<open>uptimeMs\<close>, \<open>r\<close> the random draw, \<open>t2\<close> the reading of \<open>getUptime\<close>, \<open>t3\<close> the one of the
  timestamp.
\<close>

definition get_api_metrics ::
  "host \<Rightarrow> sampling \<Rightarrow> int \<Rightarrow> exec_result \<Rightarrow> int \<Rightarrow> real \<Rightarrow> int \<Rightarrow> int \<Rightarrow> serverMetrics \<Rightarrow> response" where
  "get_api_metrics H draw tH ex t1 r t2 t3 m =
     (let h = getSystemHealth draw (toISOString H tH);
          dockerStatus = checkDockerStatus ex
      in \<lparr>statusCode = 200,
          body = JObj
            [(''uptime'', JObj
                [(''percentage'', JNum (reported_percentage r)),
                 (''duration'', JStr (getUptime t2 m)),
                 (''startTime'', JStr (toISOString H (startTime m)))]),
             (''performance'', JObj
                [(''averageResponseTime'', jnum (getAverageResponseTime m)),
                 (''requestCount'', jint (requestCount m)),
                 (''requestsPerHour'', jnum (metrics_requestsPerHour t1 m))]),
             (''system'', JObj
                (opt_field ''cpu'' jint (cpu h)
                 @ opt_field ''memory'' jint (memory h)
                 @ opt_field ''disk'' jint (disk h)
                 @ [(''healthy'', JBool (healthy h))])),
             (''docker'', JObj
                [(''status'', JStr (if running dockerStatus then ''running'' else ''stopped'')),
                 (''containerCount'', JNum (real (containerCount dockerStatus))),
                 (''containers'', JArr (map container_json (containers dockerStatus)))]),
             (''timestamp'', JStr (toISOString H t3))]\<rparr>)"

section \<open>The handler for unknown API paths\<close>

text \<open>
  The request object as a handler sees it: \<open>originalUrl\<close> is the path the client asked
  for, \<open>baseUrl\<close> the part the router matched against the mount path of the middleware,
  and \<open>path\<close> what is left of the path after it.
\<close>

record request =
  originalUrl :: string
  baseUrl :: string
  path :: string

definition api_not_found :: "host \<Rightarrow> request \<Rightarrow> int \<Rightarrow> response" where
  "api_not_found H req t =
     \<lparr>statusCode = 404,
      body = JObj [(''error'', JStr ''API endpoint not found''),
                   (''path'', JStr (path req)),
                   (''timestamp'', JStr (toISOString H t))]\<rparr>"

text \<open>
  The handler is registered with \<open>app.use('/api/*', ...)\<close>. Express 4 compiles the mount
  path to a pattern that is not anchored at the end and ignores case; the wildcard takes
  the rest of the path, so the matched part is the whole path. For a middleware the
  router removes the matched part from the URL before it calls the handler, puts a
  leading slash back, and records the matched part, less a trailing slash, as
  \<open>baseUrl\<close>. A path that does not begin with \<open>/api/\<close> does not reach the handler.
  The router also decodes the percent escapes of the part the wildcard took and refuses
  the request when they cannot be decoded; paths with such escapes are not covered here.
\<close>

definition fold_case :: "char \<Rightarrow> char" where
  "fold_case c =
     (if c = CHR ''A'' then CHR ''a''
      else if c = CHR ''P'' then CHR ''p''
      else if c = CHR ''I'' then CHR ''i''
      else c)"

definition strip_trailing_slash :: "string \<Rightarrow> string" where
  "strip_trailing_slash p = (if p \<noteq> [] \<and> last p = CHR ''/'' then butlast p else p)"

definition use_api_star :: "string \<Rightarrow> request option" where
  "use_api_star p =
     (if map fold_case (take 5 p) = ''/api/''
      then Some \<lparr>originalUrl = p, baseUrl = strip_trailing_slash p, path = ''/''\<rparr>
      else None)"

definition unmatched_api :: "host \<Rightarrow> string \<Rightarrow> int \<Rightarrow> response option" where
  "unmatched_api H p t = map_option (\<lambda>req. api_not_found H req t) (use_api_star p)"

section \<open>Auxiliary notions for the properties\<close>

text \<open>
  The invariant of the running server: every response that has finished or is still
  open was counted as a request.
\<close>

definition server_inv :: "server \<Rightarrow> bool" where
  "server_inv s \<longleftrightarrow>
     responseTimeCount (metrics s) + int (length (listeners s)) \<le> requestCount (metrics s)
     \<and> 0 \<le> responseTimeCount (metrics s)"

text \<open>
  The hour component of an uptime text, read back from the text itself: the decimal
  number in front of the letter \<open>h\<close>, and zero for a text without hours.
\<close>

definition digit_value :: "char \<Rightarrow> nat" where
  "digit_value c = of_char c - 48"

definition read_nat :: "string \<Rightarrow> nat" where
  "read_nat s = foldl (\<lambda>a c. 10 * a + digit_value c) 0 s"

definition hour_text :: "string \<Rightarrow> string" where
  "hour_text s = (if CHR ''h'' \<in> set s then takeWhile (\<lambda>c. c \<noteq> CHR ''h'') s else [])"

definition hour_component :: "string \<Rightarrow> nat" where
  "hour_component s = read_nat (hour_text s)"

text \<open>A host whose formatting functions print plain decimal numbers, for concrete runs.\<close>

definition plain_host :: host where
  "plain_host = \<lparr>toISOString = show_int, toLocaleString = show_jsnum\<rparr>"

section \<open>Numbers: rounding and division\<close>

lemma round_half_up_round: "round_half_up x = round x"
  by (simp add: round_half_up_def round_def)

lemma js_div_finite: "b \<noteq> 0 \<Longrightarrow> js_div a b = Num (a / b)"
  by (simp add: js_div_def)

lemma js_div_finite_iff: "(\<exists>q. js_div a b = Num q) \<longleftrightarrow> b \<noteq> 0"
  by (simp add: js_div_def)

section \<open>Request rate\<close>

lemma metrics_requestsPerHour_clamped:
  "metrics_requestsPerHour now m =
     Num (round (real_of_int (requestCount m)
                 / max (real_of_int (now - startTime m) / 3600000) 0.1))"
proof -
  have "max (real_of_int (now - startTime m) / (1000 * 60 * 60)) 0.1 \<noteq> 0"
    by (simp add: max_def)
  then show ?thesis
    by (simp add: metrics_requestsPerHour_def Let_def js_div_finite round_half_up_round)
qed

lemma status_requestsPerHour_guarded:
  "status_requestsPerHour now m =
     (if startTime m < now
      then Num (round (real_of_int (requestCount m)
                       / (real_of_int (now - startTime m) / 3600000)))
      else Num 0)"
  by (simp add: status_requestsPerHour_def Let_def js_div_finite round_half_up_round)

text \<open>
  C1. The requests-per-hour figure is \<open>round(requestCount / max(elapsedHours, 0.1))\<close> on
  every endpoint that reports one. The metrics endpoint computes this
  (\<open>metrics_requestsPerHour_clamped\<close>); the status endpoint divides by the elapsed hours
  themselves whenever they are positive (\<open>status_requestsPerHour_guarded\<close>). With ten
  requests counted and three minutes (180000 ms, 0.05 hours) elapsed since the start, the
  status endpoint reports 200 where the metrics endpoint, on the same state, reports 100.
\<close>

theorem status_rate_at_three_minutes:
  "status_requestsPerHour 1700000180000
     \<lparr>startTime = 1700000000000, requestCount = 10, totalResponseTime = 0, responseTimeCount = 0\<rparr> = Num 200
   \<and> metrics_requestsPerHour 1700000180000
     \<lparr>startTime = 1700000000000, requestCount = 10, totalResponseTime = 0, responseTimeCount = 0\<rparr> = Num 100
   \<and> jpath [''metrics'', ''requestsPerHour'']
        (body (get_api_status H ex draw tH 1700000180000 t2 t3 t4
           \<lparr>startTime = 1700000000000, requestCount = 10, totalResponseTime = 0, responseTimeCount = 0\<rparr>))
      = Some (JStr (toLocaleString H (Num 200)))
   \<and> jpath [''performance'', ''requestsPerHour'']
        (body (get_api_metrics H draw tH ex 1700000180000 r t2 t3
           \<lparr>startTime = 1700000000000, requestCount = 10, totalResponseTime = 0, responseTimeCount = 0\<rparr>))
      = Some (JNum 100)"
  by (simp add: get_api_status_def get_api_metrics_def Let_def status_requestsPerHour_def
      metrics_requestsPerHour_def js_div_def round_half_up_def)

section \<open>Request accounting\<close>

text \<open>
  C2, as the code does it. For every inbound request that reaches the accounting
  middleware, the middleware records the clock reading as the start time of the request
  and increments \<open>requestCount\<close> by 1 at once, on arrival, leaving the two response-time
  fields alone; when the response finishes, the listener adds the milliseconds elapsed
  since that start to \<open>totalResponseTime\<close> and increments \<open>responseTimeCount\<close> by 1,
  leaving \<open>requestCount\<close> alone. A request that \<open>cors()\<close> ends or \<open>express.json()\<close>
  rejects does not reach the middleware and changes nothing.
\<close>

theorem middleware_accounting:
  "(step (Request now) s = Some s1 \<longrightarrow>
      listeners s1 = listeners s @ [now]
      \<and> requestCount (metrics s1) = requestCount (metrics s) + 1
      \<and> totalResponseTime (metrics s1) = totalResponseTime (metrics s)
      \<and> responseTimeCount (metrics s1) = responseTimeCount (metrics s))
   \<and> step (Bypassed b) s = Some s
   \<and> (step (Finish now' i) s' = Some s2 \<longrightarrow>
      requestCount (metrics s2) = requestCount (metrics s')
      \<and> totalResponseTime (metrics s2)
          = totalResponseTime (metrics s') + (now' - listeners s' ! i)
      \<and> responseTimeCount (metrics s2) = responseTimeCount (metrics s') + 1)"
  by (auto simp: track_request_def on_finish_def Let_def split: if_splits)

lemma request_example:
  "step (Request 1005) (boot 1000) =
     Some \<lparr>metrics = \<lparr>startTime = 1000, requestCount = 1, totalResponseTime = 0,
                      responseTimeCount = 0\<rparr>,
           listeners = [1005]\<rparr>"
  by (simp add: boot_def initialMetrics_def track_request_def)

lemma finish_example:
  "step (Finish 1012 0)
     \<lparr>metrics = \<lparr>startTime = 1000, requestCount = 1, totalResponseTime = 0,
                 responseTimeCount = 0\<rparr>,
      listeners = [1005]\<rparr> =
     Some \<lparr>metrics = \<lparr>startTime = 1000, requestCount = 1, totalResponseTime = 7,
                      responseTimeCount = 1\<rparr>,
           listeners = []\<rparr>"
  by (simp add: on_finish_def remove_nth_def)

theorem middleware_accounting_witness:
  "step (Request 1005) (boot 1000) =
     Some \<lparr>metrics = \<lparr>startTime = 1000, requestCount = 1, totalResponseTime = 0,
                      responseTimeCount = 0\<rparr>,
           listeners = [1005]\<rparr>
   \<and> requestCount \<lparr>startTime = 1000, requestCount = 1, totalResponseTime = 0,
                    responseTimeCount = 0\<rparr>
       = requestCount (metrics (boot 1000)) + 1
   \<and> step (Bypassed EndedByCors) (boot 1000) = Some (boot 1000)
   \<and> step (Finish 1012 0)
       \<lparr>metrics = \<lparr>startTime = 1000, requestCount = 1, totalResponseTime = 0,
                   responseTimeCount = 0\<rparr>,
        listeners = [1005]\<rparr> =
     Some \<lparr>metrics = \<lparr>startTime = 1000, requestCount = 1, totalResponseTime = 7,
                      responseTimeCount = 1\<rparr>,
           listeners = []\<rparr>"
proof -
  note acc = middleware_accounting
          [of 1005 "boot 1000"
              "\<lparr>metrics = \<lparr>startTime = 1000, requestCount = 1, totalResponseTime = 0,
                           responseTimeCount = 0\<rparr>,
                listeners = [1005]\<rparr>"
              EndedByCors
              1012 0
              "\<lparr>metrics = \<lparr>startTime = 1000, requestCount = 1, totalResponseTime = 0,
                           responseTimeCount = 0\<rparr>,
                listeners = [1005]\<rparr>"
              "\<lparr>metrics = \<lparr>startTime = 1000, requestCount = 1, totalResponseTime = 7,
                           responseTimeCount = 1\<rparr>,
                listeners = []\<rparr>"]
  have counted: "requestCount \<lparr>startTime = 1000, requestCount = 1, totalResponseTime = 0,
                    responseTimeCount = 0\<rparr>
       = requestCount (metrics (boot 1000)) + 1"
    using acc [THEN conjunct1, rule_format, OF request_example] by simp
  show ?thesis
    by (intro conjI request_example counted acc [THEN conjunct2, THEN conjunct1] finish_example)
qed

text \<open>
  C2 as stated has every inbound request counted, and counted on response completion,
  not before. On the first request of a server started at 1000, arriving at 1005, the
  count is 1 as soon as the middleware has run, and its completion at 1012 does not add
  to it; and a request that \<open>cors()\<close> ends is not counted at all.
\<close>

theorem requestCount_on_arrival_counterexample:
  "requestCount (snd (track_request 1005 (initialMetrics 1000))) = 1
   \<and> requestCount (on_finish 1005 1012 (snd (track_request 1005 (initialMetrics 1000))))
       \<noteq> requestCount (snd (track_request 1005 (initialMetrics 1000))) + 1
   \<and> step (Bypassed EndedByCors) (boot 1000) = Some (boot 1000)"
  by (simp add: track_request_def on_finish_def initialMetrics_def)

section \<open>Counters of the running server\<close>

lemma server_inv_boot: "server_inv (boot t0)"
  by (simp add: server_inv_def boot_def initialMetrics_def)

lemma set_remove_nth: "set (remove_nth i xs) \<subseteq> set xs"
  unfolding remove_nth_def
  using set_take_subset [of i xs] set_drop_subset [of "Suc i" xs] by auto

lemma length_remove_nth: "i < length xs \<Longrightarrow> Suc (length (remove_nth i xs)) = length xs"
  by (simp add: remove_nth_def)

lemma server_inv_step:
  assumes "server_inv s" and "step e s = Some s'"
  shows "server_inv s'"
proof (cases e)
  case (Request now)
  with assms show ?thesis
    by (auto simp: server_inv_def track_request_def Let_def)
next
  case (Bypassed b)
  with assms show ?thesis by simp
next
  case (Finish now i)
  with assms have i: "i < length (listeners s)"
    by (auto split: if_splits)
  from Finish assms i have s': "s' = \<lparr>metrics = on_finish (listeners s ! i) now (metrics s),
      listeners = remove_nth i (listeners s)\<rparr>"
    by simp
  have "Suc (length (remove_nth i (listeners s))) = length (listeners s)"
    using i by (rule length_remove_nth)
  then show ?thesis
    using assms(1) unfolding s' server_inv_def on_finish_def Let_def
    by (simp; linarith?)
next
  case (Abort i)
  with assms have i: "i < length (listeners s)"
    by (auto split: if_splits)
  from Abort assms i have s': "s' = \<lparr>metrics = metrics s,
      listeners = remove_nth i (listeners s)\<rparr>"
    by simp
  have "Suc (length (remove_nth i (listeners s))) = length (listeners s)"
    using i by (rule length_remove_nth)
  then show ?thesis
    using assms(1) unfolding s' server_inv_def
    by (simp; linarith?)
qed

lemma server_inv_run: "server_inv s \<Longrightarrow> run es s = Some s' \<Longrightarrow> server_inv s'"
proof (induction es arbitrary: s)
  case Nil
  then show ?case by simp
next
  case (Cons e es)
  then show ?case
    by (auto split: option.splits dest: server_inv_step)
qed

lemma step_counts_monotone:
  assumes "step e s = Some s'"
  shows "requestCount (metrics s) \<le> requestCount (metrics s')
       \<and> responseTimeCount (metrics s) \<le> responseTimeCount (metrics s')"
  using assms
  by (cases e) (auto simp: track_request_def on_finish_def Let_def split: if_splits)

lemma step_total_monotone:
  assumes "step e s = Some s'" and "elapsed_nonneg e s"
  shows "totalResponseTime (metrics s) \<le> totalResponseTime (metrics s')"
  using assms
  by (cases e) (auto simp: track_request_def on_finish_def Let_def split: if_splits)

text \<open>Every start a listener holds is a reading some earlier event made.\<close>

lemma listeners_step:
  assumes "step e s = Some s'"
  shows "set (listeners s') \<subseteq> set (listeners s) \<union> set (reading e)"
proof (cases e)
  case (Request now)
  with assms show ?thesis by (auto simp: track_request_def Let_def)
next
  case (Bypassed b)
  with assms show ?thesis by simp
next
  case (Finish now i)
  with assms have "listeners s' = remove_nth i (listeners s)"
    by (auto split: if_splits)
  then show ?thesis using set_remove_nth [of i "listeners s"] by auto
next
  case (Abort i)
  with assms have "listeners s' = remove_nth i (listeners s)"
    by (auto split: if_splits)
  then show ?thesis using set_remove_nth [of i "listeners s"] by auto
qed

lemma listeners_run:
  "run es s = Some s' \<Longrightarrow> set (listeners s') \<subseteq> set (listeners s) \<union> set (readings es)"
proof (induction es arbitrary: s)
  case Nil
  then show ?case by simp
next
  case (Cons e es)
  from Cons.prems obtain s1 where e: "step e s = Some s1" and es: "run es s1 = Some s'"
    by (auto split: option.splits)
  have "set (listeners s') \<subseteq> set (listeners s1) \<union> set (readings es)"
    using es by (rule Cons.IH)
  moreover have "set (listeners s1) \<subseteq> set (listeners s) \<union> set (reading e)"
    using e by (rule listeners_step)
  ultimately show ?case by (auto simp: readings_def)
qed

lemma sorted_clock_elapsed_nonneg:
  assumes "run es (boot t0) = Some s" and "step e s = Some s'"
      and "sorted (readings (es @ [e]))"
  shows "elapsed_nonneg e s"
proof (cases e)
  case (Finish now i)
  with assms(2) have i: "i < length (listeners s)"
    by (auto split: if_splits)
  have "set (listeners s) \<subseteq> set (readings es)"
    using listeners_run [OF assms(1)] by (simp add: boot_def)
  with i have "listeners s ! i \<in> set (readings es)"
    using nth_mem by blast
  moreover have "\<forall>x\<in>set (readings es). x \<le> now"
    using assms(3) Finish by (simp add: readings_def sorted_append)
  ultimately show ?thesis using Finish by simp
qed simp_all

text \<open>
  C6, as the code does it. In every state the server reaches from its start by requests
  and response completions, in any order (\<open>run es (boot t0) = Some s\<close>),
  \<open>responseTimeCount\<close> is at most \<open>requestCount\<close>, and across any further step neither
  \<open>requestCount\<close> nor \<open>responseTimeCount\<close> decreases. \<open>totalResponseTime\<close> does not
  decrease across a step whose measured response time is not negative, which is every
  step as long as no reading of \<open>Date.now()\<close> has been below an earlier one.
\<close>

theorem counters_invariant:
  assumes "run es (boot t0) = Some s" and "step e s = Some s'"
  shows "responseTimeCount (metrics s) \<le> requestCount (metrics s)
       \<and> responseTimeCount (metrics s') \<le> requestCount (metrics s')
       \<and> requestCount (metrics s) \<le> requestCount (metrics s')
       \<and> responseTimeCount (metrics s) \<le> responseTimeCount (metrics s')
       \<and> (elapsed_nonneg e s \<longrightarrow>
            totalResponseTime (metrics s) \<le> totalResponseTime (metrics s'))
       \<and> (sorted (readings (es @ [e])) \<longrightarrow>
            totalResponseTime (metrics s) \<le> totalResponseTime (metrics s'))"
proof -
  have s: "server_inv s" using server_inv_boot assms(1) by (rule server_inv_run)
  then have s': "server_inv s'" using assms(2) by (rule server_inv_step)
  from s have 1: "responseTimeCount (metrics s) \<le> requestCount (metrics s)"
    by (simp add: server_inv_def)
  from s' have 2: "responseTimeCount (metrics s') \<le> requestCount (metrics s')"
    by (simp add: server_inv_def)
  have 3: "elapsed_nonneg e s \<longrightarrow>
             totalResponseTime (metrics s) \<le> totalResponseTime (metrics s')"
    using step_total_monotone [OF assms(2)] by blast
  have 4: "sorted (readings (es @ [e])) \<longrightarrow>
             totalResponseTime (metrics s) \<le> totalResponseTime (metrics s')"
    using sorted_clock_elapsed_nonneg [OF assms] step_total_monotone [OF assms(2)] by blast
  show ?thesis
    using 1 2 3 4 step_counts_monotone [OF assms(2)] by blast
qed

lemma run_example:
  "run [Request 1005, Bypassed EndedByCors, Request 1007, Finish 1014 1] (boot 1000) =
     Some \<lparr>metrics = \<lparr>startTime = 1000, requestCount = 2, totalResponseTime = 7,
                      responseTimeCount = 1\<rparr>,
           listeners = [1005]\<rparr>"
  by (simp add: boot_def initialMetrics_def track_request_def on_finish_def remove_nth_def)

lemma step_example:
  "step (Finish 1018 0)
     \<lparr>metrics = \<lparr>startTime = 1000, requestCount = 2, totalResponseTime = 7,
                 responseTimeCount = 1\<rparr>,
      listeners = [1005]\<rparr> =
     Some \<lparr>metrics = \<lparr>startTime = 1000, requestCount = 2, totalResponseTime = 20,
                      responseTimeCount = 2\<rparr>,
           listeners = []\<rparr>"
  by (simp add: on_finish_def remove_nth_def)

lemma sorted_example:
  "sorted (readings ([Request 1005, Bypassed EndedByCors, Request 1007, Finish 1014 1]
                     @ [Finish 1018 0]))"
  by (simp add: readings_def)

lemma elapsed_example:
  "elapsed_nonneg (Finish 1018 0)
     \<lparr>metrics = \<lparr>startTime = 1000, requestCount = 2, totalResponseTime = 7,
                 responseTimeCount = 1\<rparr>,
      listeners = [1005]\<rparr>"
  by simp

theorem counters_invariant_witness:
  "run [Request 1005, Bypassed EndedByCors, Request 1007, Finish 1014 1] (boot 1000) =
     Some \<lparr>metrics = \<lparr>startTime = 1000, requestCount = 2, totalResponseTime = 7,
                      responseTimeCount = 1\<rparr>,
           listeners = [1005]\<rparr>
   \<and> step (Finish 1018 0)
       \<lparr>metrics = \<lparr>startTime = 1000, requestCount = 2, totalResponseTime = 7,
                   responseTimeCount = 1\<rparr>,
        listeners = [1005]\<rparr> =
     Some \<lparr>metrics = \<lparr>startTime = 1000, requestCount = 2, totalResponseTime = 20,
                      responseTimeCount = 2\<rparr>,
           listeners = []\<rparr>
   \<and> elapsed_nonneg (Finish 1018 0)
       \<lparr>metrics = \<lparr>startTime = 1000, requestCount = 2, totalResponseTime = 7,
                   responseTimeCount = 1\<rparr>,
        listeners = [1005]\<rparr>
   \<and> sorted (readings ([Request 1005, Bypassed EndedByCors, Request 1007, Finish 1014 1]
                       @ [Finish 1018 0]))
   \<and> responseTimeCount \<lparr>startTime = 1000, requestCount = 2, totalResponseTime = 20,
                         responseTimeCount = 2\<rparr>
       \<le> requestCount \<lparr>startTime = 1000, requestCount = 2, totalResponseTime = 20,
                         responseTimeCount = 2\<rparr>
   \<and> totalResponseTime \<lparr>startTime = 1000, requestCount = 2, totalResponseTime = 7,
                         responseTimeCount = 1\<rparr>
       \<le> totalResponseTime \<lparr>startTime = 1000, requestCount = 2, totalResponseTime = 20,
                         responseTimeCount = 2\<rparr>"
proof -
  note inv = counters_invariant [OF run_example step_example]
  have total: "totalResponseTime \<lparr>startTime = 1000, requestCount = 2, totalResponseTime = 7,
                         responseTimeCount = 1\<rparr>
       \<le> totalResponseTime \<lparr>startTime = 1000, requestCount = 2, totalResponseTime = 20,
                         responseTimeCount = 2\<rparr>"
    using inv [THEN conjunct2, THEN conjunct2, THEN conjunct2, THEN conjunct2, THEN conjunct2,
               rule_format, OF sorted_example]
    by simp
  have count: "responseTimeCount \<lparr>startTime = 1000, requestCount = 2, totalResponseTime = 20,
                         responseTimeCount = 2\<rparr>
       \<le> requestCount \<lparr>startTime = 1000, requestCount = 2, totalResponseTime = 20,
                         responseTimeCount = 2\<rparr>"
    using inv [THEN conjunct2, THEN conjunct1] by simp
  show ?thesis
    by (intro conjI run_example step_example elapsed_example sorted_example count total)
qed

text \<open>
  C6 as stated has \<open>totalResponseTime\<close> never decrease. A request arrives when the clock
  reads 1005; the clock is set back, and the response finishes when it reads 1000: the
  listener adds \<open>1000 - 1005\<close>, and the total falls from 0 to -5.
\<close>

theorem totalResponseTime_decreases_counterexample:
  "run [Request 1005] (boot 1000) =
     Some \<lparr>metrics = \<lparr>startTime = 1000, requestCount = 1, totalResponseTime = 0,
                      responseTimeCount = 0\<rparr>,
           listeners = [1005]\<rparr>
   \<and> step (Finish 1000 0)
       \<lparr>metrics = \<lparr>startTime = 1000, requestCount = 1, totalResponseTime = 0,
                   responseTimeCount = 0\<rparr>,
        listeners = [1005]\<rparr> =
     Some \<lparr>metrics = \<lparr>startTime = 1000, requestCount = 1, totalResponseTime = - 5,
                      responseTimeCount = 1\<rparr>,
           listeners = []\<rparr>
   \<and> totalResponseTime \<lparr>startTime = 1000, requestCount = 1, totalResponseTime = - 5,
                         responseTimeCount = 1\<rparr>
       < totalResponseTime \<lparr>startTime = 1000, requestCount = 1, totalResponseTime = 0,
                         responseTimeCount = 0\<rparr>"
  by (simp add: boot_def initialMetrics_def track_request_def on_finish_def remove_nth_def)

section \<open>Average response time\<close>

text \<open>
  C7. For every metrics state the average response time is
  \<open>round(totalResponseTime / responseTimeCount)\<close> when \<open>responseTimeCount\<close> is positive
  and 0 when it is zero; the result is always a finite number, never the \<open>Infinity\<close> or
  \<open>NaN\<close> that a division by zero yields.
\<close>

theorem getAverageResponseTime_spec:
  "(responseTimeCount m > 0 \<longrightarrow>
      getAverageResponseTime m =
        Num (round (real_of_int (totalResponseTime m) / real_of_int (responseTimeCount m))))
   \<and> (responseTimeCount m = 0 \<longrightarrow> getAverageResponseTime m = Num 0)
   \<and> getAverageResponseTime m \<notin> {PosInfinity, NegInfinity, NaN}"
  by (simp add: getAverageResponseTime_def js_div_finite round_half_up_round)

theorem getAverageResponseTime_spec_witness:
  "getAverageResponseTime
     \<lparr>startTime = 1000, requestCount = 2, totalResponseTime = 7, responseTimeCount = 2\<rparr> = Num 4
   \<and> getAverageResponseTime
     \<lparr>startTime = 1000, requestCount = 3, totalResponseTime = 0, responseTimeCount = 0\<rparr> = Num 0"
  using getAverageResponseTime_spec
          [of "\<lparr>startTime = 1000, requestCount = 2, totalResponseTime = 7, responseTimeCount = 2\<rparr>"]
        getAverageResponseTime_spec
          [of "\<lparr>startTime = 1000, requestCount = 3, totalResponseTime = 0, responseTimeCount = 0\<rparr>"]
  by (simp add: round_def)

section \<open>Uptime text\<close>

lemma digit_cases:
  assumes "d < (10::nat)"
  obtains "d = 0" | "d = 1" | "d = 2" | "d = 3" | "d = 4"
        | "d = 5" | "d = 6" | "d = 7" | "d = 8" | "d = 9"
  using assms by atomize_elim arith

lemma digit_value_digit_char: "d < 10 \<Longrightarrow> digit_value (digit_char d) = d"
  by (erule digit_cases) (simp_all add: digit_value_def digit_char_def)

lemma digit_char_not_h: "d < 10 \<Longrightarrow> digit_char d \<noteq> CHR ''h''"
  by (erule digit_cases) (simp_all add: digit_char_def)

lemma read_nat_snoc: "read_nat (s @ [c]) = 10 * read_nat s + digit_value c"
  by (simp add: read_nat_def)

lemma read_show_nat: "read_nat (show_nat n) = n"
proof (induction n rule: show_nat.induct)
  case (1 n)
  show ?case
  proof (cases "n < 10")
    case True
    then show ?thesis
      using read_nat_snoc [of "[]" "digit_char n"]
      by (simp add: show_nat.simps [of n] digit_value_digit_char read_nat_def)
  next
    case False
    then have "read_nat (show_nat (n div 10)) = n div 10" using "1.IH" by simp
    with False show ?thesis
      by (simp add: show_nat.simps [of n] read_nat_snoc digit_value_digit_char)
  qed
qed

lemma show_nat_no_h: "CHR ''h'' \<notin> set (show_nat n)"
proof (induction n rule: show_nat.induct)
  case (1 n)
  show ?case
  proof (cases "n < 10")
    case True
    then show ?thesis
      using digit_char_not_h [of n] by (simp add: show_nat.simps [of n])
  next
    case False
    then have "CHR ''h'' \<notin> set (show_nat (n div 10))" using "1.IH" by simp
    moreover have "digit_char (n mod 10) \<noteq> CHR ''h''" by (rule digit_char_not_h) simp
    ultimately show ?thesis using False
      by (simp add: show_nat.simps [of n])
  qed
qed

lemma uptime_hours_div: "uptime_hours e = e div 3600000"
  using floor_divide_of_int_eq [where ?'a = real, of e 3600000]
  by (simp add: uptime_hours_def del: floor_divide_of_int_eq)

lemma uptime_minutes_div: "0 \<le> e \<Longrightarrow> uptime_minutes e = (e mod 3600000) div 60000"
proof -
  assume "0 \<le> e"
  then have "js_rem e (1000 * 60 * 60) = e mod 3600000" by (simp add: js_rem_def)
  then show ?thesis
    using floor_divide_of_int_eq [where ?'a = real, of "e mod 3600000" 60000]
    by (simp add: uptime_minutes_def del: floor_divide_of_int_eq)
qed

lemma hour_component_hours: "hour_component (show_nat h @ CHR ''h'' # rest) = h"
proof -
  have "takeWhile (\<lambda>c. c \<noteq> CHR ''h'') (show_nat h @ CHR ''h'' # rest)
          = show_nat h @ takeWhile (\<lambda>c. c \<noteq> CHR ''h'') (CHR ''h'' # rest)"
    by (rule takeWhile_append2) (use show_nat_no_h [of h] in auto)
  then show ?thesis
    by (simp add: hour_component_def hour_text_def read_show_nat)
qed

lemma hour_component_minutes: "hour_component (show_nat k @ ''m'') = 0"
  using show_nat_no_h [of k] by (simp add: hour_component_def hour_text_def read_nat_def)

lemma getUptime_nonneg:
  assumes "startTime m \<le> now"
  shows "getUptime now m =
           (if (now - startTime m) div 3600000 > 0
            then show_nat (nat ((now - startTime m) div 3600000)) @ ''h ''
                 @ show_nat (nat ((now - startTime m) mod 3600000 div 60000)) @ ''m''
            else show_nat (nat ((now - startTime m) mod 3600000 div 60000)) @ ''m'')"
proof -
  let ?e = "now - startTime m"
  have e: "0 \<le> ?e" using assms by simp
  have "0 \<le> ?e mod 3600000 div 60000"
    by (simp add: pos_imp_zdiv_nonneg_iff)
  then show ?thesis
    using e by (simp add: getUptime_def Let_def uptime_hours_div uptime_minutes_div show_int_def)
qed

lemma hour_component_getUptime:
  assumes "startTime m \<le> now"
  shows "hour_component (getUptime now m) = nat ((now - startTime m) div 3600000)"
  using assms
  by (simp add: getUptime_nonneg hour_component_hours hour_component_minutes)

lemma show_nat_examples:
  "show_nat (Suc 0) = ''1''" "show_nat 2 = ''2''" "show_nat 30 = ''30''" "show_nat 45 = ''45''"
  by (simp_all add: show_nat.simps digit_char_def)

text \<open>
  C9. For every non-negative elapsed time (the clock reading \<open>now\<close> is not before
  \<open>startTime\<close>) the uptime text is \<open>{hours}h {minutes}m\<close> when the hour count is
  positive and \<open>{minutes}m\<close> otherwise, where hours and minutes are the integer
  quotients \<open>elapsed div 3600000\<close> and \<open>(elapsed mod 3600000) div 60000\<close>; the hour
  component read back from the text is that hour count and does not decrease when the
  elapsed time grows; 90 minutes give \<open>1h 30m\<close> and 45 minutes give \<open>45m\<close>.
\<close>

theorem getUptime_spec:
  assumes "startTime m \<le> now" and "now \<le> now'"
  shows "getUptime now m =
           (if (now - startTime m) div 3600000 > 0
            then show_int ((now - startTime m) div 3600000) @ ''h ''
                 @ show_int ((now - startTime m) mod 3600000 div 60000) @ ''m''
            else show_int ((now - startTime m) mod 3600000 div 60000) @ ''m'')
       \<and> hour_component (getUptime now m) = nat ((now - startTime m) div 3600000)
       \<and> hour_component (getUptime now m) \<le> hour_component (getUptime now' m)
       \<and> getUptime (startTime m + 90 * 60 * 1000) m = ''1h 30m''
       \<and> getUptime (startTime m + 45 * 60 * 1000) m = ''45m''"
proof -
  let ?e = "now - startTime m"
  have e: "0 \<le> ?e" using assms by simp
  have fmt: "getUptime now m =
           (if ?e div 3600000 > 0
            then show_int (?e div 3600000) @ ''h '' @ show_int (?e mod 3600000 div 60000) @ ''m''
            else show_int (?e mod 3600000 div 60000) @ ''m'')"
    using e by (simp add: getUptime_def Let_def uptime_hours_div uptime_minutes_div)
  have "?e div 3600000 \<le> (now' - startTime m) div 3600000"
    using assms(2) by (intro zdiv_mono1) simp_all
  then have mono: "hour_component (getUptime now m) \<le> hour_component (getUptime now' m)"
    using assms by (simp add: hour_component_getUptime)
  have ex1: "getUptime (startTime m + 90 * 60 * 1000) m = ''1h 30m''"
    by (simp add: getUptime_nonneg show_nat_examples)
  have ex2: "getUptime (startTime m + 45 * 60 * 1000) m = ''45m''"
    by (simp add: getUptime_nonneg show_nat_examples)
  show ?thesis
    using fmt mono ex1 ex2 hour_component_getUptime [OF assms(1)] by simp
qed

theorem getUptime_spec_witness:
  "startTime (initialMetrics 1000) \<le> 5401000 \<and> (5401000::int) \<le> 9000000
   \<and> getUptime 5401000 (initialMetrics 1000) = ''1h 30m''
   \<and> hour_component (getUptime 5401000 (initialMetrics 1000)) = 1
   \<and> hour_component (getUptime 5401000 (initialMetrics 1000))
       \<le> hour_component (getUptime 9000000 (initialMetrics 1000))"
proof -
  have h1: "startTime (initialMetrics 1000) \<le> 5401000" by (simp add: initialMetrics_def)
  have h2: "(5401000::int) \<le> 9000000" by simp
  have e: "(5401000 - startTime (initialMetrics 1000)) div 3600000 = 1"
          "(5401000 - startTime (initialMetrics 1000)) mod 3600000 div 60000 = 30"
    by (simp_all add: initialMetrics_def)
  note spec = getUptime_spec [OF h1 h2]
  have a: "getUptime 5401000 (initialMetrics 1000) = ''1h 30m''"
    using spec [THEN conjunct1] by (simp add: e show_int_def show_nat_examples)
  have b: "hour_component (getUptime 5401000 (initialMetrics 1000)) = 1"
    using spec [THEN conjunct2, THEN conjunct1] by (simp add: e)
  have c: "hour_component (getUptime 5401000 (initialMetrics 1000))
             \<le> hour_component (getUptime 9000000 (initialMetrics 1000))"
    using spec [THEN conjunct2, THEN conjunct2, THEN conjunct1] .
  show ?thesis by (intro conjI h1 h2 a b c)
qed

section \<open>Simulated uptime percentage\<close>

text \<open>
  C8. For every random draw \<open>r\<close> in \<open>[0,1)\<close> the uptime percentage that
  \<open>GET /api/metrics\<close> reports, \<open>max(99.0, 100 - r*1)\<close> rounded to one decimal place,
  lies in the closed interval from 99.0 to 100.0.
\<close>

theorem uptime_percentage_range:
  assumes "0 \<le> r" and "r < 1"
  shows "jpath [''uptime'', ''percentage''] (body (get_api_metrics H draw tH ex t1 r t2 t3 m))
           = Some (JNum (reported_percentage r))
       \<and> 99 \<le> reported_percentage r \<and> reported_percentage r \<le> 100"
proof -
  let ?u = "uptimePercentage r"
  have lo: "99 \<le> ?u" by (simp add: uptimePercentage_def)
  have hi: "?u \<le> 100" using assms by (simp add: uptimePercentage_def)
  have "(990::int) \<le> \<lfloor>?u * 10 + 1 / 2\<rfloor>"
    using lo by (intro le_floor_iff [THEN iffD2]) simp
  moreover have "\<lfloor>?u * 10 + 1 / 2\<rfloor> \<le> (1000::int)"
  proof -
    have "?u * 10 + 1 / 2 < of_int (1001::int)" using hi by simp
    then have "\<lfloor>?u * 10 + 1 / 2\<rfloor> < (1001::int)" by (simp only: floor_less_iff)
    then show ?thesis by simp
  qed
  ultimately have "99 \<le> reported_percentage r \<and> reported_percentage r \<le> 100"
    by (simp add: reported_percentage_def round_half_up_def)
  moreover have "jpath [''uptime'', ''percentage'']
        (body (get_api_metrics H draw tH ex t1 r t2 t3 m)) = Some (JNum (reported_percentage r))"
    by (simp add: get_api_metrics_def Let_def)
  ultimately show ?thesis by simp
qed

lemma reported_percentage_formula:
  "reported_percentage r = real_of_int (round (max 99 (100 - r) * 10)) / 10"
  by (simp add: reported_percentage_def uptimePercentage_def round_half_up_round)

lemma reported_percentage_example: "reported_percentage 0.25 = 99.8"
  by (simp add: reported_percentage_def uptimePercentage_def round_half_up_def)

theorem uptime_percentage_range_witness:
  "(0::real) \<le> 0.25 \<and> (0.25::real) < 1
   \<and> jpath [''uptime'', ''percentage'']
        (body (get_api_metrics plain_host (Drawn 0.5 0.5 0.5) 2000 (Inl (ExecError ''gone''))
                 2000 0.25 2000 2000 (initialMetrics 1000)))
      = Some (JNum 99.8)
   \<and> (99::real) \<le> reported_percentage 0.25 \<and> reported_percentage 0.25 \<le> 100"
proof -
  have h1: "(0::real) \<le> 0.25" by simp
  have h2: "(0.25::real) < 1" by simp
  note range = uptime_percentage_range
            [OF h1 h2, where H = plain_host and draw = "Drawn 0.5 0.5 0.5" and tH = 2000
               and ex = "Inl (ExecError ''gone'')" and ?t1.0 = 2000 and ?t2.0 = 2000
               and ?t3.0 = 2000 and m = "initialMetrics 1000"]
  have a: "jpath [''uptime'', ''percentage'']
        (body (get_api_metrics plain_host (Drawn 0.5 0.5 0.5) 2000 (Inl (ExecError ''gone''))
                 2000 0.25 2000 2000 (initialMetrics 1000)))
      = Some (JNum 99.8)"
    using range [THEN conjunct1] by (simp only: reported_percentage_example)
  show ?thesis
    by (intro conjI h1 h2 a range [THEN conjunct2, THEN conjunct1]
          range [THEN conjunct2, THEN conjunct2])
qed

section \<open>Health\<close>

text \<open>
  C4. A sample with numeric \<open>cpu\<close>, \<open>memory\<close> and \<open>disk\<close> is marked healthy if and only
  if \<open>cpu < 80\<close> and \<open>memory < 85\<close> and \<open>disk < 90\<close>: the sampler marks so the sample it
  computes from any three draws, and every integer triple is the sample of some draws;
  \<open>GET /health\<close> answers 200 with status \<open>healthy\<close> when the flag of the sample is
  true, and 503 with status \<open>unhealthy\<close> when it is false.
\<close>

theorem health_thresholds_and_status:
  "healthy (health_sample c m d ts) = (c < 80 \<and> m < 85 \<and> d < 90)
   \<and> (healthy h \<longrightarrow>
        statusCode (health_response h) = 200
        \<and> jget ''status'' (body (health_response h)) = Some (JStr ''healthy''))
   \<and> (\<not> healthy h \<longrightarrow>
        statusCode (health_response h) = 503
        \<and> jget ''status'' (body (health_response h)) = Some (JStr ''unhealthy''))
   \<and> cpu (getSystemHealth (Drawn r1 r2 r3) ts) = Some (\<lfloor>r1 * 30\<rfloor> + 10)
   \<and> memory (getSystemHealth (Drawn r1 r2 r3) ts) = Some (\<lfloor>r2 * 40\<rfloor> + 30)
   \<and> disk (getSystemHealth (Drawn r1 r2 r3) ts) = Some (\<lfloor>r3 * 20\<rfloor> + 20)
   \<and> healthy (getSystemHealth (Drawn r1 r2 r3) ts)
       = (\<lfloor>r1 * 30\<rfloor> + 10 < 80 \<and> \<lfloor>r2 * 40\<rfloor> + 30 < 85 \<and> \<lfloor>r3 * 20\<rfloor> + 20 < 90)
   \<and> getSystemHealth
        (Drawn ((real_of_int c - 10) / 30) ((real_of_int m - 30) / 40) ((real_of_int d - 20) / 20)) ts
       = health_sample c m d ts
   \<and> statusCode (get_health H draw t)
       = (if healthy (getSystemHealth draw (toISOString H t)) then 200 else 503)
   \<and> jget ''status'' (body (get_health H draw t))
       = Some (JStr (if healthy (getSystemHealth draw (toISOString H t))
                     then ''healthy'' else ''unhealthy''))
   \<and> jget ''timestamp'' (body (get_health H draw t))
       = Some (JStr (timestamp (getSystemHealth draw (toISOString H t))))
   \<and> jget ''details'' (body (get_health H draw t))
       = Some (health_json (getSystemHealth draw (toISOString H t)))"
proof -
  have "(real_of_int c - 10) / 30 * 30 = real_of_int (c - 10)"
       "(real_of_int m - 30) / 40 * 40 = real_of_int (m - 30)"
       "(real_of_int d - 20) / 20 * 20 = real_of_int (d - 20)"
    by simp_all
  then have inj: "\<lfloor>(real_of_int c - 10) / 30 * 30\<rfloor> + 10 = c"
            "\<lfloor>(real_of_int m - 30) / 40 * 40\<rfloor> + 30 = m"
            "\<lfloor>(real_of_int d - 20) / 20 * 20\<rfloor> + 20 = d"
    by (simp_all only: floor_of_int)
  have "getSystemHealth
        (Drawn ((real_of_int c - 10) / 30) ((real_of_int m - 30) / 40) ((real_of_int d - 20) / 20)) ts
       = health_sample c m d ts"
    unfolding getSystemHealth.simps Let_def inj ..
  then show ?thesis
    by (simp add: health_sample_def health_response_def get_health_def Let_def)
qed

lemma injected_healthy:
  "getSystemHealth (Drawn 0 (- (1 / 2)) (- (1 / 2))) ts = health_sample 10 10 10 ts"
  by (simp add: health_sample_def)

lemma injected_unhealthy:
  "getSystemHealth (Drawn (8 / 3) (- (1 / 2)) (- (1 / 2))) ts = health_sample 90 10 10 ts"
  by (simp add: health_sample_def)

theorem health_thresholds_and_status_witness:
  "healthy (health_sample 10 10 10 ''t'')
   \<and> statusCode (health_response (health_sample 10 10 10 ''t'')) = 200
   \<and> jget ''status'' (body (health_response (health_sample 10 10 10 ''t'')))
       = Some (JStr ''healthy'')
   \<and> \<not> healthy (health_sample 90 10 10 ''t'')
   \<and> statusCode (health_response (health_sample 90 10 10 ''t'')) = 503
   \<and> jget ''status'' (body (health_response (health_sample 90 10 10 ''t'')))
       = Some (JStr ''unhealthy'')
   \<and> statusCode (get_health plain_host (Drawn 0 (- (1 / 2)) (- (1 / 2))) 2000) = 200
   \<and> jget ''status'' (body (get_health plain_host (Drawn 0 (- (1 / 2)) (- (1 / 2))) 2000))
       = Some (JStr ''healthy'')
   \<and> statusCode (get_health plain_host (Drawn (8 / 3) (- (1 / 2)) (- (1 / 2))) 2000) = 503
   \<and> jget ''status'' (body (get_health plain_host (Drawn (8 / 3) (- (1 / 2)) (- (1 / 2))) 2000))
       = Some (JStr ''unhealthy'')"
proof -
  note ok = health_thresholds_and_status
      [of 10 10 10 "''t''" "health_sample 10 10 10 ''t''" 0 "- (1 / 2)" "- (1 / 2)"
          plain_host "Drawn 0 (- (1 / 2)) (- (1 / 2))" 2000]
  note bad = health_thresholds_and_status
      [of 90 10 10 "''t''" "health_sample 90 10 10 ''t''" "8 / 3" "- (1 / 2)" "- (1 / 2)"
          plain_host "Drawn (8 / 3) (- (1 / 2)) (- (1 / 2))" 2000]
  have h1: "healthy (health_sample 10 10 10 ''t'')"
    using ok [THEN conjunct1] by simp
  have h2: "\<not> healthy (health_sample 90 10 10 ''t'')"
    using bad [THEN conjunct1] by simp
  have g1: "healthy (getSystemHealth (Drawn 0 (- (1 / 2)) (- (1 / 2))) (toISOString plain_host 2000))"
    by (simp add: injected_healthy health_sample_def)
  have g2: "\<not> healthy (getSystemHealth (Drawn (8 / 3) (- (1 / 2)) (- (1 / 2))) (toISOString plain_host 2000))"
    by (simp add: injected_unhealthy health_sample_def)
  show ?thesis
    using ok bad h1 h2 g1 g2 by simp
qed

lemma floor_scaled_draw:
  assumes "0 \<le> r" and "r < 1" and "0 < k"
  shows "0 \<le> \<lfloor>r * real_of_int k\<rfloor> \<and> \<lfloor>r * real_of_int k\<rfloor> \<le> k - 1"
proof -
  have "0 \<le> r * real_of_int k" using assms by simp
  then have lo: "0 \<le> \<lfloor>r * real_of_int k\<rfloor>" by simp
  have "r * real_of_int k < real_of_int k" using assms by simp
  then have "\<lfloor>r * real_of_int k\<rfloor> < k" by (simp add: floor_less_iff)
  with lo show ?thesis by simp
qed

text \<open>
  C10. For every random draw (three numbers in \<open>[0,1)\<close>) the synthesized sample has
  \<open>cpu\<close> in 10..39, \<open>memory\<close> in 30..69 and \<open>disk\<close> in 20..39, all below the thresholds
  80, 85 and 90; so the sample is healthy and \<open>GET /health\<close> answers 200, not 503.
\<close>

theorem synthesized_sample_always_healthy:
  assumes "0 \<le> r1" "r1 < 1" "0 \<le> r2" "r2 < 1" "0 \<le> r3" "r3 < 1"
  shows "\<exists>c m d. getSystemHealth (Drawn r1 r2 r3) ts = health_sample c m d ts
           \<and> 10 \<le> c \<and> c \<le> 39 \<and> 30 \<le> m \<and> m \<le> 69 \<and> 20 \<le> d \<and> d \<le> 39
           \<and> c < 80 \<and> m < 85 \<and> d < 90
           \<and> healthy (getSystemHealth (Drawn r1 r2 r3) ts)
           \<and> statusCode (get_health H (Drawn r1 r2 r3) t) = 200
           \<and> statusCode (get_health H (Drawn r1 r2 r3) t) \<noteq> 503"
proof -
  have c: "0 \<le> \<lfloor>r1 * 30\<rfloor> \<and> \<lfloor>r1 * 30\<rfloor> \<le> 29"
    using floor_scaled_draw [of r1 30] assms by simp
  have m: "0 \<le> \<lfloor>r2 * 40\<rfloor> \<and> \<lfloor>r2 * 40\<rfloor> \<le> 39"
    using floor_scaled_draw [of r2 40] assms by simp
  have d: "0 \<le> \<lfloor>r3 * 20\<rfloor> \<and> \<lfloor>r3 * 20\<rfloor> \<le> 19"
    using floor_scaled_draw [of r3 20] assms by simp
  show ?thesis
    apply (rule exI [of _ "\<lfloor>r1 * 30\<rfloor> + 10"])
    apply (rule exI [of _ "\<lfloor>r2 * 40\<rfloor> + 30"])
    apply (rule exI [of _ "\<lfloor>r3 * 20\<rfloor> + 20"])
    using c m d
    by (simp add: Let_def health_sample_def get_health_def health_response_def)
qed

lemma sample_example:
  "getSystemHealth (Drawn 0.999 0.5 0) ''t'' = health_sample 39 50 20 ''t''"
  by (simp add: health_sample_def)

theorem synthesized_sample_always_healthy_witness:
  "(0::real) \<le> 0.999 \<and> (0.999::real) < 1 \<and> (0::real) \<le> 0.5 \<and> (0.5::real) < 1
   \<and> (0::real) \<le> 0 \<and> (0::real) < 1
   \<and> getSystemHealth (Drawn 0.999 0.5 0) ''t'' = health_sample 39 50 20 ''t''
   \<and> healthy (getSystemHealth (Drawn 0.999 0.5 0) ''t'')
   \<and> statusCode (get_health plain_host (Drawn 0.999 0.5 0) 2000) = 200"
proof -
  have h: "(0::real) \<le> 0.999" "(0.999::real) < 1" "(0::real) \<le> 0.5" "(0.5::real) < 1"
          "(0::real) \<le> 0" "(0::real) < 1"
    by simp_all
  from synthesized_sample_always_healthy
         [OF h, where ts = "''t''" and H = plain_host and t = 2000]
  have "healthy (getSystemHealth (Drawn 0.999 0.5 0) ''t'')
        \<and> statusCode (get_health plain_host (Drawn 0.999 0.5 0) 2000) = 200"
    by blast
  then show ?thesis
    using h sample_example by blast
qed

section \<open>Container runtime failures\<close>

text \<open>
  C5. Whenever the call of the container runtime fails, whatever the error, the summary
  query returns \<open>{running: false, containerCount: 0, containers: []}\<close> and does not
  raise, and \<open>GET /api/status\<close> still answers 200 with \<open>services.docker.status\<close> equal
  to \<open>offline\<close> and \<open>services.docker.containers\<close> equal to 0.
\<close>

theorem docker_failure_degrades:
  "checkDockerStatus (Inl e) = \<lparr>running = False, containerCount = 0, containers = []\<rparr>
   \<and> statusCode (get_api_status H (Inl e) draw tH t1 t2 t3 t4 m) = 200
   \<and> jpath [''services'', ''docker'', ''status'']
        (body (get_api_status H (Inl e) draw tH t1 t2 t3 t4 m)) = Some (JStr ''offline'')
   \<and> jpath [''services'', ''docker'', ''containers'']
        (body (get_api_status H (Inl e) draw tH t1 t2 t3 t4 m)) = Some (JNum 0)"
  by (simp add: get_api_status_def Let_def)

lemma docker_listing_example:
  "checkDockerStatus
     (Inr (''NAMES'' @ [CHR 0x09] @ ''STATUS'' @ [CHR 0x0A]
           @ ''web'' @ [CHR 0x09] @ ''Up 2 hours'' @ [CHR 0x0A]
           @ ''db   Up'' @ [CHR 0x0A]))
   = \<lparr>running = True, containerCount = 2,
      containers = [\<lparr>name = Some ''web'', status = Some ''Up 2 hours''\<rparr>,
                    \<lparr>name = Some ''db   Up'', status = None\<rparr>]\<rparr>"
  by (simp add: parse_container_def js_trim_def is_space_def is_space2_def is_space3_def)

section \<open>Unknown API paths\<close>

lemma api_not_found_echoes_path:
  "statusCode (api_not_found H req t) = 404
   \<and> jget ''error'' (body (api_not_found H req t)) = Some (JStr ''API endpoint not found'')
   \<and> jget ''path'' (body (api_not_found H req t)) = Some (JStr (path req))"
  by (simp add: api_not_found_def)

lemma use_api_star_path:
  "use_api_star p = Some req \<Longrightarrow> originalUrl req = p \<and> path req = ''/''"
  by (auto simp: use_api_star_def split: if_splits)

text \<open>
  C3. A request for an unknown path under \<open>/api/\<close> is answered with 404 and a body that
  has an \<open>error\<close> field and a \<open>path\<close> field naming the requested path. The handler
  answers 404 with both fields, and the \<open>path\<close> field holds the \<open>path\<close> property of the
  request (\<open>api_not_found_echoes_path\<close>); under the mount path of the handler that
  property is what is left after the matched part, so for \<open>/api/doesnotexist\<close> the body
  says \<open>/\<close>.
\<close>

theorem not_found_path_at_doesnotexist:
  "unmatched_api H ''/api/doesnotexist'' t =
     Some \<lparr>statusCode = 404,
           body = JObj [(''error'', JStr ''API endpoint not found''),
                        (''path'', JStr ''/''),
                        (''timestamp'', JStr (toISOString H t))]\<rparr>"
  by (simp add: unmatched_api_def use_api_star_def api_not_found_def fold_case_def
      strip_trailing_slash_def)

end
